theory Spec2Isabelle
  imports Main "HOL-Library.Word"
begin

section \<open>Policies and the host's files\<close>

text \<open>
  The policy object of \<^verbatim>\<open>src/cli.ts\<close> (\<^verbatim>\<open>getDefaultConfig\<close>) and of the
  configuration file: two lists of domains and three lists of path patterns. Arrays
  are lists, in file order.
\<close>

type_synonym path = string

record NetworkConfig =
  allowedDomains :: "string list"
  deniedDomains :: "string list"

record FilesystemConfig =
  denyRead :: "path list"
  allowWrite :: "path list"
  denyWrite :: "path list"

record SandboxRuntimeConfig =
  network :: NetworkConfig
  filesystem :: FilesystemConfig

text \<open>
  A JavaScript string read from a file is a sequence of UTF-16 code units. A path of
  the host holds a regular file with its decoded content, or something that
  \<^verbatim>\<open>existsSync\<close> reports and \<^verbatim>\<open>readFileSync\<close> fails on (a directory, a file
  without read permission), with the text of the error it throws.
\<close>

type_synonym content = "16 word list"

datatype node = File content | Unreadable string

type_synonym files = "path \<Rightarrow> node option"

record world =
  files :: files
  console :: "string list"

text \<open>What a \<^verbatim>\<open>try\<close> block can see thrown, and what an expression evaluates to.\<close>

datatype thrown = SyntaxError string | OtherError string

datatype 'a outcome = Returns 'a | Throws thrown

text \<open>One issue of a failed schema validation: where in the object, and what.\<close>

record issue =
  issue_path :: "string list"
  message :: string

text \<open>
  What the modules under \<^verbatim>\<open>src/\<close> call and do not define: the JSON parser (a
  \<^verbatim>\<open>SyntaxError\<close> with its message, or the parsed value), the schema's
  \<^verbatim>\<open>safeParse\<close> (the issues, or the validated data), the home directory and
  \<^verbatim>\<open>path.join\<close>, the entry points of \<^verbatim>\<open>SandboxManager\<close> that the command
  line calls (\<^verbatim>\<open>initialize\<close>: the message of the error it throws, if any;
  \<^verbatim>\<open>wrapWithSandbox\<close>: the message of the error, or the wrapped command line;
  \<^verbatim>\<open>getNetworkRestrictionConfig\<close>: the message of the error it throws, if any),
  and two calls into Node that can throw where the sources call them unguarded:
  \<^verbatim>\<open>fs.watch\<close> on a path of the host and \<^verbatim>\<open>spawn\<close> on a command line (each the
  message of the error, if any). They are parameters of every definition below.
\<close>

record 'j externals =
  JSON_parse :: "content \<Rightarrow> string + 'j"
  safeParse :: "'j \<Rightarrow> issue list + SandboxRuntimeConfig"
  os_homedir :: string
  path_join :: "string \<Rightarrow> string \<Rightarrow> string"
  initialize :: "SandboxRuntimeConfig \<Rightarrow> string option"
  wrapWithSandbox :: "string \<Rightarrow> string + string"
  getNetworkRestrictionConfig :: "string option"
  fs_watch :: "world \<Rightarrow> path \<Rightarrow> string option"
  spawn :: "string \<Rightarrow> string option"

section \<open>Strings\<close>

text \<open>
  \<^verbatim>\<open>String.prototype.trim\<close> removes white space and line terminators at both ends:
  TAB, LF, VT, FF, CR, SP, NBSP, U+1680, U+2000 to U+200A, U+2028, U+2029, U+202F,
  U+205F, U+3000 and U+FEFF.
\<close>

definition isWhiteSpace :: "16 word \<Rightarrow> bool" where
  "isWhiteSpace u \<longleftrightarrow>
     u = 0x0009 \<or> u = 0x000A \<or> u = 0x000B \<or> u = 0x000C \<or> u = 0x000D \<or> u = 0x0020 \<or>
     u = 0x00A0 \<or> u = 0x1680 \<or> (0x2000 \<le> u \<and> u \<le> 0x200A) \<or>
     u = 0x2028 \<or> u = 0x2029 \<or> u = 0x202F \<or> u = 0x205F \<or> u = 0x3000 \<or> u = 0xFEFF"

definition trim :: "content \<Rightarrow> content" where
  "trim s = rev (dropWhile isWhiteSpace (rev (dropWhile isWhiteSpace s)))"

text \<open>The code units of a string of ASCII characters (for writing file contents).\<close>

definition utf16 :: "string \<Rightarrow> content" where
  "utf16 s = map of_char s"

text \<open>\<^verbatim>\<open>Array.prototype.join\<close> on an array of strings.\<close>

fun join :: "string \<Rightarrow> string list \<Rightarrow> string" where
  "join sep [] = []"
| "join sep [x] = x"
| "join sep (x # y # ys) = x @ sep @ join sep (y # ys)"

section \<open>The configuration loader (\<^verbatim>\<open>src/utils/config-loader.ts\<close>)\<close>

definition existsSync :: "world \<Rightarrow> path \<Rightarrow> bool" where
  "existsSync w p \<longleftrightarrow> files w p \<noteq> None"

definition readFileSync :: "world \<Rightarrow> path \<Rightarrow> content outcome" where
  "readFileSync w p =
     (case files w p of
        Some (File s) \<Rightarrow> Returns s
      | Some (Unreadable e) \<Rightarrow> Throws (OtherError e)
      | None \<Rightarrow> Throws (OtherError ''ENOENT''))"

definition console_error :: "string \<Rightarrow> world \<Rightarrow> world" where
  "console_error line w = w\<lparr>console := console w @ [line]\<rparr>"

definition issue_line :: "issue \<Rightarrow> string" where
  "issue_line i = ''  - '' @ join ''.'' (issue_path i) @ '': '' @ message i"

text \<open>
  The body of the \<^verbatim>\<open>try\<close> block of \<^verbatim>\<open>loadConfig\<close>: what it returns or throws, and
  the world it leaves (only the console can differ).
\<close>

definition loadConfig_try ::
  "'j externals \<Rightarrow> path \<Rightarrow> world \<Rightarrow> SandboxRuntimeConfig option outcome \<times> world" where
  "loadConfig_try X filePath w =
     (if \<not> existsSync w filePath then (Returns None, w)
      else case readFileSync w filePath of
        Throws e \<Rightarrow> (Throws e, w)
      | Returns s \<Rightarrow>
          if trim s = [] then (Returns None, w)
          else (case JSON_parse X s of
            Inl m \<Rightarrow> (Throws (SyntaxError m), w)
          | Inr parsed \<Rightarrow>
              (case safeParse X parsed of
                 Inl issues \<Rightarrow>
                   (Returns None,
                    fold console_error
                      ((''Invalid configuration in '' @ filePath @ '':'') # map issue_line issues) w)
               | Inr data \<Rightarrow> (Returns (Some data), w))))"

text \<open>
  \<^verbatim>\<open>loadConfig\<close> with its \<^verbatim>\<open>catch\<close>: whatever the block throws is logged and
  turned into \<^verbatim>\<open>null\<close>.
\<close>

definition loadConfig ::
  "'j externals \<Rightarrow> path \<Rightarrow> world \<Rightarrow> SandboxRuntimeConfig option \<times> world" where
  "loadConfig X filePath w =
     (case loadConfig_try X filePath w of
        (Returns r, w') \<Rightarrow> (r, w')
      | (Throws (SyntaxError m), w') \<Rightarrow>
          (None, console_error (''Invalid JSON in config file '' @ filePath @ '': '' @ m) w')
      | (Throws (OtherError e), w') \<Rightarrow>
          (None, console_error (''Failed to load config from '' @ filePath @ '': '' @ e) w'))"

text \<open>
  A configuration is schema-valid for a file content when the content parses and
  the parsed value passes \<^verbatim>\<open>safeParse\<close> with that data.
\<close>

definition validFor :: "'j externals \<Rightarrow> content \<Rightarrow> SandboxRuntimeConfig \<Rightarrow> bool" where
  "validFor X s cfg \<longleftrightarrow>
     (case JSON_parse X s of Inl m \<Rightarrow> False
      | Inr parsed \<Rightarrow> safeParse X parsed = Inr cfg)"

subsection \<open>The watcher\<close>

text \<open>
  The state that \<^verbatim>\<open>watchConfigFile\<close> and its closures share and act on: the world,
  the variables \<^verbatim>\<open>watcher\<close> and \<^verbatim>\<open>closed\<close>, the watcher handles that are open,
  the \<^verbatim>\<open>setTimeout\<close> callbacks not yet run, and every call of \<^verbatim>\<open>onUpdate\<close> so far
  with its argument, oldest first. \<^verbatim>\<open>noopCleanup\<close> says that the function returned
  is the empty one.
\<close>

record watch_state =
  env :: world
  watcher :: "nat option"
  closed :: bool
  openHandles :: "nat list"
  nextHandle :: nat
  pendingTimers :: nat
  onUpdateCalls :: "SandboxRuntimeConfig list"
  noopCleanup :: bool

datatype eventType = Rename | Change

text \<open>\<^verbatim>\<open>watcher?.close()\<close>\<close>

definition closeWatcher :: "watch_state \<Rightarrow> watch_state" where
  "closeWatcher s =
     (case watcher s of
        None \<Rightarrow> s
      | Some h \<Rightarrow> s\<lparr>openHandles := removeAll h (openHandles s)\<rparr>)"

definition setupWatcher :: "path \<Rightarrow> watch_state \<Rightarrow> watch_state" where
  "setupWatcher configPath s =
     (if closed s \<or> \<not> existsSync (env s) configPath then s
      else s\<lparr>watcher := Some (nextHandle s),
             openHandles := nextHandle s # openHandles s,
             nextHandle := Suc (nextHandle s)\<rparr>)"

text \<open>The listener given to \<^verbatim>\<open>fs.watch\<close>.\<close>

definition listener :: "'j externals \<Rightarrow> path \<Rightarrow> eventType \<Rightarrow> watch_state \<Rightarrow> watch_state" where
  "listener X configPath eventType s =
     (let s1 = (if eventType = Rename
                then (closeWatcher s)\<lparr>pendingTimers := Suc (pendingTimers s)\<rparr>
                else s);
          (newConfig, w') = loadConfig X configPath (env s1)
      in case newConfig of
           Some cfg \<Rightarrow> s1\<lparr>env := w', onUpdateCalls := onUpdateCalls s1 @ [cfg]\<rparr>
         | None \<Rightarrow> s1\<lparr>env := w'\<rparr>)"

definition watchConfigFile :: "path \<Rightarrow> world \<Rightarrow> watch_state" where
  "watchConfigFile configPath w =
     (let s0 = \<lparr>env = w, watcher = None, closed = False, openHandles = [], nextHandle = 0,
                pendingTimers = 0, onUpdateCalls = [], noopCleanup = False\<rparr>
      in if \<not> existsSync w configPath then s0\<lparr>noopCleanup := True\<rparr>
         else setupWatcher configPath s0)"

text \<open>The function \<^verbatim>\<open>watchConfigFile\<close> returns.\<close>

definition stopWatching :: "watch_state \<Rightarrow> watch_state" where
  "stopWatching s = (if noopCleanup s then s else closeWatcher (s\<lparr>closed := True\<rparr>))"

text \<open>
  What can happen while the watcher lives: something outside replaces, writes or
  deletes the file at the watched path; an open handle reports an event; a timer
  runs \<^verbatim>\<open>setupWatcher\<close>; the caller stops watching. A handle that is closed
  reports nothing.
\<close>

datatype event = FsSet "node option" | Notify nat eventType | TimerFired | StopWatching

definition step :: "'j externals \<Rightarrow> path \<Rightarrow> watch_state \<Rightarrow> event \<Rightarrow> watch_state" where
  "step X configPath s ev =
     (case ev of
        FsSet n \<Rightarrow> s\<lparr>env := (env s)\<lparr>files := (files (env s))(configPath := n)\<rparr>\<rparr>
      | Notify h t \<Rightarrow> if h \<in> set (openHandles s) then listener X configPath t s else s
      | TimerFired \<Rightarrow>
          if pendingTimers s = 0 then s
          else setupWatcher configPath (s\<lparr>pendingTimers := pendingTimers s - 1\<rparr>)
      | StopWatching \<Rightarrow> stopWatching s)"

definition run :: "'j externals \<Rightarrow> path \<Rightarrow> watch_state \<Rightarrow> event list \<Rightarrow> watch_state" where
  "run X configPath s evs = foldl (step X configPath) s evs"

text \<open>
  The three states of the watched file that the loader rejects: deleted, not JSON,
  or JSON that fails the schema.
\<close>

definition fileDeleted :: "world \<Rightarrow> path \<Rightarrow> bool" where
  "fileDeleted w p \<longleftrightarrow> files w p = None"

definition fileInvalidJSON :: "'j externals \<Rightarrow> world \<Rightarrow> path \<Rightarrow> bool" where
  "fileInvalidJSON X w p \<longleftrightarrow>
     (case files w p of
        Some (File s) \<Rightarrow> (case JSON_parse X s of Inl m \<Rightarrow> True | Inr parsed \<Rightarrow> False)
      | _ \<Rightarrow> False)"

definition fileFailsSchema :: "'j externals \<Rightarrow> world \<Rightarrow> path \<Rightarrow> bool" where
  "fileFailsSchema X w p \<longleftrightarrow>
     (case files w p of
        Some (File s) \<Rightarrow>
          (case JSON_parse X s of
             Inl m \<Rightarrow> False
           | Inr parsed \<Rightarrow> (case safeParse X parsed of Inl issues \<Rightarrow> True | Inr data \<Rightarrow> False))
      | _ \<Rightarrow> False)"

text \<open>
  \<^verbatim>\<open>fs.watch\<close> is called unguarded in \<^verbatim>\<open>setupWatcher\<close>, so what it throws leaves
  \<^verbatim>\<open>watchConfigFile\<close> with its caller. The first \<^verbatim>\<open>setupWatcher\<close> reaches
  \<^verbatim>\<open>fs.watch\<close> only when the file exists; \<open>watchConfigFile\<close> above is the state the
  call leaves when it returns.
\<close>

definition watchConfigFile_throws :: "'j externals \<Rightarrow> path \<Rightarrow> world \<Rightarrow> string option" where
  "watchConfigFile_throws X configPath w =
     (if \<not> existsSync w configPath then None else fs_watch X w configPath)"

section \<open>The command line (\<^verbatim>\<open>src/cli.ts\<close>)\<close>

definition getDefaultConfigPath :: "'j externals \<Rightarrow> path" where
  "getDefaultConfigPath X = path_join X (os_homedir X) ''.srt-settings.json''"

definition getDefaultConfig :: SandboxRuntimeConfig where
  "getDefaultConfig =
     \<lparr>network = \<lparr>allowedDomains = [], deniedDomains = []\<rparr>,
      filesystem = \<lparr>denyRead = [], allowWrite = [], denyWrite = []\<rparr>\<rparr>"

text \<open>
  The options the parser hands to the action handler; an option that was not given
  is \<^verbatim>\<open>undefined\<close>, here \<open>None\<close>.
\<close>

record options =
  debug :: "bool option"
  settings :: "string option"
  c :: "string option"

text \<open>
  What the handler does that another part of the system sees, in order. The handler
  ends with the child spawned or with the process exited. Debug logging and the
  handlers it registers on the process and on the child are left out: they come
  after these calls or change none of them.
\<close>

datatype call =
  Initialize SandboxRuntimeConfig
| WatchConfigFile path
| WrapWithSandbox string
| Spawn string
| ProcessExit nat

text \<open>
  \<^verbatim>\<open>options.settings || getDefaultConfigPath()\<close>: an empty string is falsy, as
  \<^verbatim>\<open>undefined\<close> is.
\<close>

definition configPath :: "'j externals \<Rightarrow> options \<Rightarrow> path" where
  "configPath X options =
     (case settings options of
        Some s \<Rightarrow> if s \<noteq> [] then s else getDefaultConfigPath X
      | None \<Rightarrow> getDefaultConfigPath X)"

text \<open>The variable \<^verbatim>\<open>runtimeConfig\<close> when \<^verbatim>\<open>initialize\<close> is called.\<close>

definition runtimeConfig :: "'j externals \<Rightarrow> options \<Rightarrow> world \<Rightarrow> SandboxRuntimeConfig" where
  "runtimeConfig X options w =
     (case fst (loadConfig X (configPath X options) w) of
        None \<Rightarrow> getDefaultConfig
      | Some cfg \<Rightarrow> cfg)"

text \<open>
  The variable \<^verbatim>\<open>command\<close>: \<^verbatim>\<open>if (options.c)\<close> is the truthiness of a string, so
  an empty \<^verbatim>\<open>-c\<close> argument takes the branches of an absent one. \<open>None\<close> is the
  last branch, which prints the error and exits.
\<close>

definition commandString :: "options \<Rightarrow> string list \<Rightarrow> string option" where
  "commandString options commandArgs =
     (let fromArgs = (if length commandArgs > 0 then Some (join '' '' commandArgs) else None)
      in case c options of
           Some s \<Rightarrow> if s \<noteq> [] then Some s else fromArgs
         | None \<Rightarrow> fromArgs)"

text \<open>
  The handler. Everything from \<^verbatim>\<open>initialize\<close> to \<^verbatim>\<open>spawn\<close> is inside one
  \<^verbatim>\<open>try\<close> block, and each of these calls can throw: the \<^verbatim>\<open>catch\<close> prints the
  message and exits with status 1, so nothing after the call that threw is
  called. \<^verbatim>\<open>getNetworkRestrictionConfig\<close> is evaluated for the debug log between
  the choice of the command and \<^verbatim>\<open>wrapWithSandbox\<close>; it is not in the trace.
\<close>

definition action :: "'j externals \<Rightarrow> string list \<Rightarrow> options \<Rightarrow> world \<Rightarrow> call list \<times> world" where
  "action X commandArgs options w =
     (let w1 = snd (loadConfig X (configPath X options) w);
          cfg = runtimeConfig X options w;
          watch = WatchConfigFile (configPath X options)
      in case initialize X cfg of
           Some m \<Rightarrow> ([Initialize cfg, ProcessExit 1], console_error (''Error: '' @ m) w1)
         | None \<Rightarrow>
         (case watchConfigFile_throws X (configPath X options) w1 of
           Some m \<Rightarrow>
             ([Initialize cfg, watch, ProcessExit 1], console_error (''Error: '' @ m) w1)
         | None \<Rightarrow>
         (case commandString options commandArgs of
           None \<Rightarrow>
             ([Initialize cfg, watch, ProcessExit 1],
              console_error
                ''Error: No command specified. Use -c <command> or provide command arguments.''
                w1)
         | Some command \<Rightarrow>
         (case getNetworkRestrictionConfig X of
           Some m \<Rightarrow>
             ([Initialize cfg, watch, ProcessExit 1], console_error (''Error: '' @ m) w1)
         | None \<Rightarrow>
         (case wrapWithSandbox X command of
           Inl m \<Rightarrow>
             ([Initialize cfg, watch, WrapWithSandbox command, ProcessExit 1],
              console_error (''Error: '' @ m) w1)
         | Inr sandboxedCommand \<Rightarrow>
         (case spawn X sandboxedCommand of
           Some m \<Rightarrow>
             ([Initialize cfg, watch, WrapWithSandbox command, Spawn sandboxedCommand,
               ProcessExit 1],
              console_error (''Error: '' @ m) w1)
         | None \<Rightarrow>
             ([Initialize cfg, watch, WrapWithSandbox command, Spawn sandboxedCommand],
              w1)))))))"

text \<open>
  The handler gets as far as the call of \<^verbatim>\<open>wrapWithSandbox\<close>, if it has a command:
  no call before it in the \<^verbatim>\<open>try\<close> block has thrown.
\<close>

definition reachesWrap :: "'j externals \<Rightarrow> options \<Rightarrow> world \<Rightarrow> bool" where
  "reachesWrap X options w \<longleftrightarrow>
     initialize X (runtimeConfig X options w) = None \<and>
     watchConfigFile_throws X (configPath X options)
       (snd (loadConfig X (configPath X options) w)) = None \<and>
     getNetworkRestrictionConfig X = None"

text \<open>The strings handed to \<^verbatim>\<open>wrapWithSandbox\<close> and to \<^verbatim>\<open>spawn\<close> in a trace.\<close>

fun wrapped :: "call list \<Rightarrow> string list" where
  "wrapped [] = []"
| "wrapped (WrapWithSandbox s # cs) = s # wrapped cs"
| "wrapped (x # cs) = wrapped cs"

fun spawned :: "call list \<Rightarrow> string list" where
  "spawned [] = []"
| "spawned (Spawn s # cs) = s # spawned cs"
| "spawned (x # cs) = spawned cs"

fun initialized :: "call list \<Rightarrow> SandboxRuntimeConfig list" where
  "initialized [] = []"
| "initialized (Initialize cfg # cs) = cfg # initialized cs"
| "initialized (x # cs) = initialized cs"

section \<open>The network filtering rule\<close>

text \<open>
  Modelled from the spec: the filtering proxy is not among the sources; this is the
  rule of section 4.4 for one connection attempt with extracted hostname \<open>h\<close>: if
  \<open>deniedDomains\<close> matches, refuse; else if \<open>allowedDomains\<close> is non-empty, allow
  only on match; else allow. How a domain entry matches a hostname is not given, so
  it is the parameter \<open>matches\<close> (entry first, hostname second).
\<close>

datatype decision = Allow | Refuse

definition matchesAny :: "(string \<Rightarrow> string \<Rightarrow> bool) \<Rightarrow> string list \<Rightarrow> string \<Rightarrow> bool" where
  "matchesAny matches ds h = list_ex (\<lambda>d. matches d h) ds"

definition filterDecision ::
  "(string \<Rightarrow> string \<Rightarrow> bool) \<Rightarrow> NetworkConfig \<Rightarrow> string \<Rightarrow> decision" where
  "filterDecision matches net h =
     (if matchesAny matches (deniedDomains net) h then Refuse
      else if allowedDomains net \<noteq> [] then
        (if matchesAny matches (allowedDomains net) h then Allow else Refuse)
      else Allow)"

section \<open>The filesystem policy compiler\<close>

text \<open>
  Modelled from the spec: the compiler is not among the sources; this is the
  algorithm of section 4.3. The plan starts with the baseline (the whole host
  filesystem, read-only); then come a mask for each \<open>denyRead\<close> pattern, a
  read-write bind for each \<open>allowWrite\<close> pattern and a read-only bind for each
  \<open>denyWrite\<close> pattern, each category in declaration order. Every pattern is
  resolved first, and one that does not resolve is the error
  \<open>InvalidMountPattern\<close>; a pattern that matches no existing path adds a warning.
  Resolution and existence belong to the host: the parameters \<open>resolve\<close> and
  \<open>exists\<close>.
\<close>

datatype directive = Baseline | Mask path | BindReadWrite path | BindReadOnly path

datatype compile_error = InvalidMountPattern path

fun compilePatterns ::
  "(path \<Rightarrow> path option) \<Rightarrow> (path \<Rightarrow> bool) \<Rightarrow> (path \<Rightarrow> directive) \<Rightarrow> path list \<Rightarrow>
     compile_error + directive list \<times> path list" where
  "compilePatterns resolve exists mk [] = Inr ([], [])"
| "compilePatterns resolve exists mk (p # ps) =
     (case resolve p of
        None \<Rightarrow> Inl (InvalidMountPattern p)
      | Some q \<Rightarrow>
          (case compilePatterns resolve exists mk ps of
             Inl e \<Rightarrow> Inl e
           | Inr (ds, ws) \<Rightarrow> Inr (mk q # ds, (if exists q then [] else [p]) @ ws)))"

definition compile ::
  "(path \<Rightarrow> path option) \<Rightarrow> (path \<Rightarrow> bool) \<Rightarrow> FilesystemConfig \<Rightarrow>
     compile_error + directive list \<times> path list" where
  "compile resolve exists fs =
     (case compilePatterns resolve exists Mask (denyRead fs) of
        Inl e \<Rightarrow> Inl e
      | Inr (d1, w1) \<Rightarrow>
          (case compilePatterns resolve exists BindReadWrite (allowWrite fs) of
             Inl e \<Rightarrow> Inl e
           | Inr (d2, w2) \<Rightarrow>
               (case compilePatterns resolve exists BindReadOnly (denyWrite fs) of
                  Inl e \<Rightarrow> Inl e
                | Inr (d3, w3) \<Rightarrow> Inr (Baseline # d1 @ d2 @ d3, w1 @ w2 @ w3))))"

text \<open>
  Modelled from the spec: what a plan grants at a path, by rule 6 of section 4.3. A
  directive applies to its target and to everything below it; among the
  directives that apply, the one with the most specific target decides, and among
  those with the same target the later one. Paths are compared by their
  components.
\<close>

datatype access = Hidden | ReadOnly | ReadWrite

fun components_from :: "string \<Rightarrow> string \<Rightarrow> string list" where
  "components_from acc [] = (if acc = [] then [] else [acc])"
| "components_from acc (ch # cs) =
     (if ch = CHR ''/'' then (if acc = [] then [] else [acc]) @ components_from [] cs
      else components_from (acc @ [ch]) cs)"

definition components :: "path \<Rightarrow> string list" where
  "components p = components_from [] p"

fun target :: "directive \<Rightarrow> string list" where
  "target Baseline = []"
| "target (Mask p) = components p"
| "target (BindReadWrite p) = components p"
| "target (BindReadOnly p) = components p"

fun grants :: "directive \<Rightarrow> access" where
  "grants Baseline = ReadOnly"
| "grants (Mask p) = Hidden"
| "grants (BindReadWrite p) = ReadWrite"
| "grants (BindReadOnly p) = ReadOnly"

definition appliesTo :: "directive \<Rightarrow> string list \<Rightarrow> bool" where
  "appliesTo d q \<longleftrightarrow> take (length (target d)) q = target d"

fun decide :: "string list \<Rightarrow> (nat \<times> access) option \<Rightarrow> directive \<Rightarrow> (nat \<times> access) option" where
  "decide q None d = (if appliesTo d q then Some (length (target d), grants d) else None)"
| "decide q (Some (n, a)) d =
     (if appliesTo d q \<and> n \<le> length (target d) then Some (length (target d), grants d)
      else Some (n, a))"

definition effective :: "directive list \<Rightarrow> path \<Rightarrow> access option" where
  "effective ds p = map_option snd (foldl (decide (components p)) None ds)"

text \<open>
  An invariant of \<open>decide\<close> along a plan: the directive that decides so far has a
  target no longer than the path asked about.
\<close>

definition within :: "string list \<Rightarrow> (nat \<times> access) option \<Rightarrow> bool" where
  "within q st \<longleftrightarrow> (case st of None \<Rightarrow> True | Some (n, a) \<Rightarrow> n \<le> length q)"

section \<open>Test doubles\<close>

text \<open>
  Concrete values for the parameters, after the repository's tests
  (\<^verbatim>\<open>test/cli-config-loading.test.ts\<close>): the valid configuration and its JSON text,
  a parser that knows that text and the text \<^verbatim>\<open>{"network":{}}\<close> and rejects every
  other one, a schema that accepts the first only, a manager and a \<^verbatim>\<open>spawn\<close>
  that never fail, and an \<^verbatim>\<open>fs.watch\<close> that fails on a path the process cannot
  read. The theorems below hold for every value of the parameters; these
  instantiate them.
\<close>

definition exampleConfig :: SandboxRuntimeConfig where
  "exampleConfig =
     \<lparr>network = \<lparr>allowedDomains = [''example.com''], deniedDomains = []\<rparr>,
      filesystem = \<lparr>denyRead = [], allowWrite = [], denyWrite = []\<rparr>\<rparr>"

definition exampleText :: content where
  \<open>exampleText = utf16 ''{"network":{"allowedDomains":["example.com"],"deniedDomains":[]},"filesystem":{"denyRead":[],"allowWrite":[],"denyWrite":[]}}''\<close>

definition testExternals :: "nat externals" where
  \<open>testExternals =
     \<lparr>JSON_parse = (\<lambda>s. if s = exampleText then Inr 1
                        else if s = utf16 ''{"network":{}}'' then Inr 0
                        else Inl ''Unexpected token''),
      safeParse = (\<lambda>j. if j = 1 then Inr exampleConfig
                       else Inl [\<lparr>issue_path = [''network'', ''allowedDomains''],
                                  message = ''Required''\<rparr>]),
      os_homedir = ''/home/user'',
      path_join = (\<lambda>a b. a @ ''/'' @ b),
      initialize = (\<lambda>cfg. None),
      wrapWithSandbox = (\<lambda>s. Inr (''bwrap -- '' @ s)),
      getNetworkRestrictionConfig = None,
      fs_watch = (\<lambda>w p. case files w p of Some (Unreadable e) \<Rightarrow> Some e | _ \<Rightarrow> None),
      spawn = (\<lambda>s. None)\<rparr>\<close>

text \<open>A host whose only entry, if any, is at \<^verbatim>\<open>/etc/srt.json\<close>.\<close>

definition hostWith :: "node option \<Rightarrow> world" where
  "hostWith n = \<lparr>files = (\<lambda>p. None)(''/etc/srt.json'' := n), console = []\<rparr>"

text \<open>
  A life of the watcher on a file that starts valid: invalid JSON is written, then
  JSON that fails the schema, then the valid text again by replacing the file; the
  watcher is set up again; the file is deleted.
\<close>

definition events0 :: "event list" where
  \<open>events0 =
     [FsSet (Some (File (utf16 ''{ invalid json }''))), Notify 0 Change,
      FsSet (Some (File (utf16 ''{"network":{}}''))), Notify 0 Change,
      FsSet (Some (File exampleText)), Notify 0 Rename, TimerFired,
      FsSet None, Notify 1 Rename, TimerFired, Notify 1 Change]\<close>

definition watching :: watch_state where
  "watching = watchConfigFile ''/etc/srt.json'' (hostWith (Some (File exampleText)))"

text \<open>Options of three invocations, and the policy of the spec's example.\<close>

definition emptyCOptions :: options where
  "emptyCOptions = \<lparr>debug = None, settings = None, c = Some ''''\<rparr>"

definition stringOptions :: options where
  "stringOptions = \<lparr>debug = None, settings = Some ''/etc/srt.json'', c = Some ''ls | wc -l''\<rparr>"

definition plainOptions :: options where
  "plainOptions = \<lparr>debug = None, settings = None, c = None\<rparr>"

definition examplePolicy :: FilesystemConfig where
  "examplePolicy =
     \<lparr>denyRead = [''/secret''], allowWrite = [''/work''], denyWrite = [''/work/readonly'']\<rparr>"

definition examplePlan :: "directive list" where
  "examplePlan =
     [Baseline, Mask ''/secret'', BindReadWrite ''/work'', BindReadOnly ''/work/readonly'']"

text \<open>A host where the configuration file exists and the process cannot read it.\<close>

definition unreadableHost :: world where
  "unreadableHost = hostWith (Some (Unreadable ''EACCES''))"

section \<open>Theorems\<close>

lemma trim_whitespace_only:
  assumes "list_all isWhiteSpace s"
  shows "trim s = []"
proof -
  from assms have d: "dropWhile isWhiteSpace s = []"
    by (simp add: dropWhile_eq_Nil_conv list_all_iff)
  show ?thesis
    unfolding trim_def d by simp
qed

subsection \<open>The loader\<close>

lemma files_console_error: "files (console_error l w) = files w"
  by (simp add: console_error_def)

lemma files_fold_console_error: "files (fold console_error ls w) = files w"
  by (induction ls arbitrary: w) (simp_all add: files_console_error)

lemma loadConfig_try_files: "files (snd (loadConfig_try X p w)) = files w"
  by (simp add: loadConfig_try_def files_fold_console_error files_console_error
      split: outcome.splits sum.splits)

lemma loadConfig_files: "files (snd (loadConfig X p w)) = files w"
  using loadConfig_try_files [of X p w]
  by (auto simp: loadConfig_def files_console_error split: prod.splits outcome.splits thrown.splits)

lemma validFor_iff:
  "validFor X s cfg \<longleftrightarrow> (\<exists>parsed. JSON_parse X s = Inr parsed \<and> safeParse X parsed = Inr cfg)"
  by (auto simp: validFor_def split: sum.splits)

lemma loadConfig_Some:
  "fst (loadConfig X p w) = Some cfg \<Longrightarrow>
     \<exists>s. files w p = Some (File s) \<and> trim s \<noteq> [] \<and> validFor X s cfg"
  by (auto simp: loadConfig_def loadConfig_try_def existsSync_def readFileSync_def validFor_iff
      split: prod.splits outcome.splits thrown.splits sum.splits option.splits node.splits if_splits)

lemma loadConfig_throws_None:
  "fst (loadConfig_try X p w) = Throws e \<Longrightarrow> fst (loadConfig X p w) = None"
  by (auto simp: loadConfig_def split: prod.splits outcome.splits thrown.splits)

lemma loadConfig_deleted: "fileDeleted w p \<Longrightarrow> fst (loadConfig X p w) = None"
  by (simp add: fileDeleted_def loadConfig_def loadConfig_try_def existsSync_def)

lemma loadConfig_invalid_JSON: "fileInvalidJSON X w p \<Longrightarrow> fst (loadConfig X p w) = None"
  by (auto simp: fileInvalidJSON_def loadConfig_def loadConfig_try_def existsSync_def
      readFileSync_def split: option.splits node.splits sum.splits)

lemma loadConfig_fails_schema: "fileFailsSchema X w p \<Longrightarrow> fst (loadConfig X p w) = None"
  by (auto simp: fileFailsSchema_def loadConfig_def loadConfig_try_def existsSync_def
      readFileSync_def split: option.splits node.splits sum.splits)

lemma loadConfig_blank:
  "files w p = Some (File s) \<Longrightarrow> trim s = [] \<Longrightarrow> fst (loadConfig X p w) = None"
  by (simp add: loadConfig_def loadConfig_try_def existsSync_def readFileSync_def)

lemmas loader_eval =
  loadConfig_def loadConfig_try_def existsSync_def readFileSync_def hostWith_def
  testExternals_def exampleText_def utf16_def trim_def isWhiteSpace_def console_error_def

lemma load_example:
  "fst (loadConfig testExternals ''/etc/srt.json'' (hostWith (Some (File exampleText))))
     = Some exampleConfig"
  by (simp add: loader_eval)

text \<open>
  C9: \<^verbatim>\<open>loadConfig\<close> never throws (whatever its \<^verbatim>\<open>try\<close> block throws, it returns
  \<^verbatim>\<open>null\<close>), and for every path and every state of the host it returns \<^verbatim>\<open>null\<close>
  or a configuration that the schema produced from the parsed content of the file
  at that path. It returns \<^verbatim>\<open>null\<close> when the file does not exist, when its content
  is empty or white space only, when the content is not JSON, and when the parsed
  value fails the schema. The files of the host are the same after the call as
  before it.
\<close>

theorem loadConfig_total_readonly:
  "(\<forall>e. fst (loadConfig_try X p w) = Throws e \<longrightarrow> fst (loadConfig X p w) = None) \<and>
   (case fst (loadConfig X p w) of
      None \<Rightarrow> True
    | Some cfg \<Rightarrow> \<exists>s. files w p = Some (File s) \<and> validFor X s cfg) \<and>
   (fileDeleted w p \<longrightarrow> fst (loadConfig X p w) = None) \<and>
   (\<forall>s. files w p = Some (File s) \<and> list_all isWhiteSpace s \<longrightarrow> fst (loadConfig X p w) = None) \<and>
   (fileInvalidJSON X w p \<longrightarrow> fst (loadConfig X p w) = None) \<and>
   (fileFailsSchema X w p \<longrightarrow> fst (loadConfig X p w) = None) \<and>
   files (snd (loadConfig X p w)) = files w"
proof -
  have caught: "\<forall>e. fst (loadConfig_try X p w) = Throws e \<longrightarrow> fst (loadConfig X p w) = None"
    by (simp add: loadConfig_throws_None)
  have valid: "case fst (loadConfig X p w) of
      None \<Rightarrow> True
    | Some cfg \<Rightarrow> \<exists>s. files w p = Some (File s) \<and> validFor X s cfg"
  proof (cases "fst (loadConfig X p w)")
    case None
    then show ?thesis by simp
  next
    case (Some cfg)
    from loadConfig_Some [OF Some] show ?thesis
      by (auto simp: Some)
  qed
  have blank: "\<forall>s. files w p = Some (File s) \<and> list_all isWhiteSpace s \<longrightarrow>
      fst (loadConfig X p w) = None"
    by (simp add: loadConfig_blank trim_whitespace_only)
  from caught valid blank show ?thesis
    by (simp add: loadConfig_deleted loadConfig_invalid_JSON loadConfig_fails_schema
        loadConfig_files)
qed

theorem loadConfig_total_readonly_witness:
  \<open>fileDeleted (hostWith None) ''/etc/srt.json'' \<and>
   fst (loadConfig testExternals ''/etc/srt.json'' (hostWith None)) = None \<and>
   list_all isWhiteSpace [0x20, 0x20, 0x20, 0x0A, 0x09, 0x20, 0x20] \<and>
   fst (loadConfig testExternals ''/etc/srt.json''
          (hostWith (Some (File [0x20, 0x20, 0x20, 0x0A, 0x09, 0x20, 0x20])))) = None \<and>
   fileInvalidJSON testExternals (hostWith (Some (File (utf16 ''{ invalid json }''))))
     ''/etc/srt.json'' \<and>
   fst (loadConfig testExternals ''/etc/srt.json''
          (hostWith (Some (File (utf16 ''{ invalid json }''))))) = None \<and>
   fst (loadConfig_try testExternals ''/etc/srt.json''
          (hostWith (Some (File (utf16 ''{ invalid json }''))))) =
     Throws (SyntaxError ''Unexpected token'') \<and>
   fileFailsSchema testExternals (hostWith (Some (File (utf16 ''{"network":{}}''))))
     ''/etc/srt.json'' \<and>
   fst (loadConfig testExternals ''/etc/srt.json''
          (hostWith (Some (File (utf16 ''{"network":{}}''))))) = None \<and>
   fst (loadConfig testExternals ''/etc/srt.json'' (hostWith (Some (File exampleText))))
     = Some exampleConfig \<and>
   validFor testExternals exampleText exampleConfig\<close>
proof -
  let ?p = "''/etc/srt.json''"
  let ?blank = "[0x20, 0x20, 0x20, 0x0A, 0x09, 0x20, 0x20] :: content"
  have h1: "fileDeleted (hostWith None) ?p"
    by (simp add: fileDeleted_def hostWith_def)
  have r1: "fst (loadConfig testExternals ?p (hostWith None)) = None"
    using loadConfig_total_readonly [of testExternals ?p "hostWith None"] h1 by blast
  have h2: "files (hostWith (Some (File ?blank))) ?p = Some (File ?blank)"
    by (simp add: hostWith_def)
  have h2': "list_all isWhiteSpace ?blank"
    by (simp add: isWhiteSpace_def)
  have r2: "fst (loadConfig testExternals ?p (hostWith (Some (File ?blank)))) = None"
    using loadConfig_total_readonly [of testExternals ?p "hostWith (Some (File ?blank))"] h2 h2'
    by blast
  have h3: \<open>fileInvalidJSON testExternals (hostWith (Some (File (utf16 ''{ invalid json }'')))) ?p\<close>
    by (simp add: fileInvalidJSON_def hostWith_def testExternals_def exampleText_def utf16_def)
  have r3: \<open>fst (loadConfig testExternals ?p (hostWith (Some (File (utf16 ''{ invalid json }'')))))
      = None\<close>
    using loadConfig_total_readonly
      [of testExternals ?p \<open>hostWith (Some (File (utf16 ''{ invalid json }'')))\<close>] h3
    by blast
  have t3: \<open>fst (loadConfig_try testExternals ?p (hostWith (Some (File (utf16 ''{ invalid json }'')))))
      = Throws (SyntaxError ''Unexpected token'')\<close>
    by (simp add: loader_eval)
  have h4: \<open>fileFailsSchema testExternals (hostWith (Some (File (utf16 ''{"network":{}}'')))) ?p\<close>
    by (simp add: fileFailsSchema_def hostWith_def testExternals_def exampleText_def utf16_def)
  have r4: \<open>fst (loadConfig testExternals ?p (hostWith (Some (File (utf16 ''{"network":{}}'')))))
      = None\<close>
    using loadConfig_total_readonly
      [of testExternals ?p \<open>hostWith (Some (File (utf16 ''{"network":{}}'')))\<close>] h4
    by blast
  have f5: "files (hostWith (Some (File exampleText))) ?p = Some (File exampleText)"
    by (simp add: hostWith_def)
  have r5: "validFor testExternals exampleText exampleConfig"
    using loadConfig_total_readonly [of testExternals ?p "hostWith (Some (File exampleText))"]
      load_example f5
    by auto
  from h1 r1 h2' r2 h3 r3 t3 h4 r4 load_example r5 show ?thesis
    by blast
qed

subsection \<open>The watcher\<close>

lemma closeWatcher_keeps:
  "onUpdateCalls (closeWatcher s) = onUpdateCalls s" "env (closeWatcher s) = env s"
  by (simp_all add: closeWatcher_def split: option.splits)

lemma setupWatcher_keeps: "onUpdateCalls (setupWatcher p s) = onUpdateCalls s"
  by (simp add: setupWatcher_def)

lemma stopWatching_keeps: "onUpdateCalls (stopWatching s) = onUpdateCalls s"
  by (simp add: stopWatching_def closeWatcher_keeps)

lemma listener_calls:
  "onUpdateCalls (listener X p t s) =
     onUpdateCalls s @ (case fst (loadConfig X p (env s)) of Some cfg \<Rightarrow> [cfg] | None \<Rightarrow> [])"
  by (cases "loadConfig X p (env s)")
     (simp add: listener_def closeWatcher_keeps split: option.splits)

text \<open>
  One event adds at most one call of \<^verbatim>\<open>onUpdate\<close>, and its argument is what
  \<^verbatim>\<open>loadConfig\<close> returns for the file as it is when the event arrives.
\<close>

lemma step_calls:
  "onUpdateCalls (step X p s ev) = onUpdateCalls s \<or>
   (\<exists>cfg. fst (loadConfig X p (env s)) = Some cfg \<and>
      onUpdateCalls (step X p s ev) = onUpdateCalls s @ [cfg])"
proof (cases ev)
  case (Notify h t)
  show ?thesis
  proof (cases "h \<in> set (openHandles s)")
    case True
    then show ?thesis
      by (cases "fst (loadConfig X p (env s))") (simp_all add: Notify step_def listener_calls)
  next
    case False
    then show ?thesis by (simp add: Notify step_def)
  qed
qed (simp_all add: step_def setupWatcher_keeps stopWatching_keeps)

lemma step_rejected:
  "fst (loadConfig X p (env s)) = None \<Longrightarrow> onUpdateCalls (step X p s ev) = onUpdateCalls s"
  using step_calls [of X p s ev] by auto

lemma step_valid:
  assumes "\<forall>cfg \<in> set (onUpdateCalls s). \<exists>text. validFor X text cfg"
  shows "\<forall>cfg \<in> set (onUpdateCalls (step X p s ev)). \<exists>text. validFor X text cfg"
proof -
  from step_calls [of X p s ev] show ?thesis
  proof
    assume "onUpdateCalls (step X p s ev) = onUpdateCalls s"
    with assms show ?thesis by simp
  next
    assume "\<exists>cfg. fst (loadConfig X p (env s)) = Some cfg \<and>
      onUpdateCalls (step X p s ev) = onUpdateCalls s @ [cfg]"
    then obtain cfg where l: "fst (loadConfig X p (env s)) = Some cfg"
      and e: "onUpdateCalls (step X p s ev) = onUpdateCalls s @ [cfg]"
      by blast
    from loadConfig_Some [OF l] have "\<exists>text. validFor X text cfg"
      by blast
    with assms e show ?thesis by auto
  qed
qed

lemma run_valid:
  "\<forall>cfg \<in> set (onUpdateCalls s). \<exists>text. validFor X text cfg \<Longrightarrow>
   \<forall>cfg \<in> set (onUpdateCalls (run X p s evs)). \<exists>text. validFor X text cfg"
proof (induction evs arbitrary: s)
  case Nil
  then show ?case by (simp add: run_def)
next
  case (Cons ev evs)
  from Cons.IH [OF step_valid [OF Cons.prems]] show ?case
    by (simp add: run_def)
qed

lemma watchConfigFile_calls: "onUpdateCalls (watchConfigFile p w) = []"
  by (simp add: watchConfigFile_def Let_def setupWatcher_keeps)

lemmas watch_eval =
  run_def step_def listener_def setupWatcher_def closeWatcher_def stopWatching_def
  watchConfigFile_def watching_def events0_def Let_def loader_eval

text \<open>
  C6: whatever happens to the watched file and whatever events arrive, in any
  order, every configuration that \<^verbatim>\<open>watchConfigFile\<close> has handed to \<^verbatim>\<open>onUpdate\<close>
  is one that parsed and passed the schema; an event that arrives while the file
  is deleted, is not JSON or fails the schema adds no call of \<^verbatim>\<open>onUpdate\<close>; and
  an event that does add a call adds one, with the configuration that the content
  of the file at that moment is valid for.
\<close>

theorem watchConfigFile_only_valid:
  "(\<forall>cfg \<in> set (onUpdateCalls (run X p (watchConfigFile p w) evs)).
      \<exists>text. validFor X text cfg) \<and>
   (fileDeleted (env s) p \<or> fileInvalidJSON X (env s) p \<or> fileFailsSchema X (env s) p \<longrightarrow>
      onUpdateCalls (step X p s ev) = onUpdateCalls s) \<and>
   (onUpdateCalls (step X p s ev) = onUpdateCalls s \<or>
    (\<exists>cfg text. files (env s) p = Some (File text) \<and> validFor X text cfg \<and>
       onUpdateCalls (step X p s ev) = onUpdateCalls s @ [cfg]))"
proof (intro conjI)
  show "\<forall>cfg \<in> set (onUpdateCalls (run X p (watchConfigFile p w) evs)).
      \<exists>text. validFor X text cfg"
    by (rule run_valid) (simp add: watchConfigFile_calls)
next
  show "fileDeleted (env s) p \<or> fileInvalidJSON X (env s) p \<or> fileFailsSchema X (env s) p \<longrightarrow>
      onUpdateCalls (step X p s ev) = onUpdateCalls s"
    using loadConfig_deleted [of "env s" p X] loadConfig_invalid_JSON [of X "env s" p]
      loadConfig_fails_schema [of X "env s" p]
    by (auto simp: step_rejected)
next
  from step_calls [of X p s ev]
  show "onUpdateCalls (step X p s ev) = onUpdateCalls s \<or>
    (\<exists>cfg text. files (env s) p = Some (File text) \<and> validFor X text cfg \<and>
       onUpdateCalls (step X p s ev) = onUpdateCalls s @ [cfg])"
    using loadConfig_Some [of X p "env s"] by blast
qed

theorem watchConfigFile_only_valid_witness:
  \<open>onUpdateCalls (run testExternals ''/etc/srt.json'' watching events0) = [exampleConfig] \<and>
   (\<exists>text. validFor testExternals text exampleConfig) \<and>
   0 \<in> set (openHandles (step testExternals ''/etc/srt.json'' watching (FsSet None))) \<and>
   fileDeleted (env (step testExternals ''/etc/srt.json'' watching (FsSet None)))
     ''/etc/srt.json'' \<and>
   onUpdateCalls (run testExternals ''/etc/srt.json'' watching [FsSet None, Notify 0 Rename]) = [] \<and>
   fileInvalidJSON testExternals
     (env (step testExternals ''/etc/srt.json'' watching
            (FsSet (Some (File (utf16 ''{ invalid json }''))))))
     ''/etc/srt.json'' \<and>
   onUpdateCalls (run testExternals ''/etc/srt.json'' watching
     [FsSet (Some (File (utf16 ''{ invalid json }''))), Notify 0 Change]) = [] \<and>
   fileFailsSchema testExternals
     (env (step testExternals ''/etc/srt.json'' watching
            (FsSet (Some (File (utf16 ''{"network":{}}''))))))
     ''/etc/srt.json'' \<and>
   onUpdateCalls (run testExternals ''/etc/srt.json'' watching
     [FsSet (Some (File (utf16 ''{"network":{}}''))), Notify 0 Change]) = []\<close>
proof -
  let ?p = "''/etc/srt.json''"
  let ?X = testExternals
  have start: "onUpdateCalls watching = []"
    by (simp add: watching_def watchConfigFile_calls)
  have calls: "onUpdateCalls (run ?X ?p watching events0) = [exampleConfig]"
    by (simp add: watch_eval)
  have valid: "\<exists>text. validFor ?X text exampleConfig"
    using watchConfigFile_only_valid
      [of ?X ?p "hostWith (Some (File exampleText))" events0] calls
    by (simp add: watching_def)
  have after: "onUpdateCalls (step ?X ?p watching (FsSet n)) = []" for n
    by (simp add: step_def start)
  have two: "run ?X ?p watching [e1, e2] = step ?X ?p (step ?X ?p watching e1) e2" for e1 e2
    by (simp add: run_def)
  let ?deleted = "step ?X ?p watching (FsSet None)"
  have open1: "0 \<in> set (openHandles ?deleted)"
    by (simp add: watch_eval)
  have h1: "fileDeleted (env ?deleted) ?p"
    by (simp add: fileDeleted_def watch_eval)
  have r1: "onUpdateCalls (run ?X ?p watching [FsSet None, Notify 0 Rename]) = []"
    using watchConfigFile_only_valid [of ?X ?p _ _ ?deleted "Notify 0 Rename"] h1
    by (simp add: two after)
  let ?broken = \<open>step ?X ?p watching (FsSet (Some (File (utf16 ''{ invalid json }''))))\<close>
  have h2: "fileInvalidJSON ?X (env ?broken) ?p"
    by (simp add: fileInvalidJSON_def watch_eval)
  have r2: \<open>onUpdateCalls (run ?X ?p watching
      [FsSet (Some (File (utf16 ''{ invalid json }''))), Notify 0 Change]) = []\<close>
    using watchConfigFile_only_valid [of ?X ?p _ _ ?broken "Notify 0 Change"] h2
    by (simp add: two after)
  let ?partial = \<open>step ?X ?p watching (FsSet (Some (File (utf16 ''{"network":{}}''))))\<close>
  have h3: "fileFailsSchema ?X (env ?partial) ?p"
    by (simp add: fileFailsSchema_def watch_eval)
  have r3: \<open>onUpdateCalls (run ?X ?p watching
      [FsSet (Some (File (utf16 ''{"network":{}}''))), Notify 0 Change]) = []\<close>
    using watchConfigFile_only_valid [of ?X ?p _ _ ?partial "Notify 0 Change"] h3
    by (simp add: two after)
  from calls valid open1 h1 r1 h2 r2 h3 r3 show ?thesis
    by blast
qed

subsection \<open>The command line\<close>

lemma wrapped_reaches:
  "reachesWrap X options w \<Longrightarrow>
   wrapped (fst (action X commandArgs options w)) =
     (case commandString options commandArgs of None \<Rightarrow> [] | Some command \<Rightarrow> [command])"
  by (simp add: action_def reachesWrap_def Let_def split: option.splits sum.splits)

lemma wrapped_cases:
  "wrapped (fst (action X commandArgs options w)) = [] \<or>
   (\<exists>command. commandString options commandArgs = Some command \<and>
      wrapped (fst (action X commandArgs options w)) = [command])"
  by (simp add: action_def Let_def split: option.splits sum.splits)

lemma not_reached:
  "\<not> reachesWrap X options w \<Longrightarrow>
   wrapped (fst (action X commandArgs options w)) = [] \<and>
   spawned (fst (action X commandArgs options w)) = [] \<and>
   last (fst (action X commandArgs options w)) = ProcessExit 1"
  by (auto simp: action_def reachesWrap_def Let_def split: option.splits sum.splits)

lemma no_command_exits:
  "commandString options commandArgs = None \<Longrightarrow>
   wrapped (fst (action X commandArgs options w)) = [] \<and>
   spawned (fst (action X commandArgs options w)) = [] \<and>
   last (fst (action X commandArgs options w)) = ProcessExit 1"
  by (simp add: action_def Let_def split: option.splits sum.splits)

lemma action_initialized:
  "initialized (fst (action X commandArgs options w)) = [runtimeConfig X options w]"
  by (simp add: action_def Let_def split: option.splits sum.splits)

lemma action_first:
  "hd (fst (action X commandArgs options w)) = Initialize (runtimeConfig X options w)"
  by (simp add: action_def Let_def split: option.splits sum.splits)

lemma commandString_c:
  "c options = Some s \<Longrightarrow> s \<noteq> [] \<Longrightarrow> commandString options commandArgs = Some s"
  by (simp add: commandString_def)

lemma commandString_args:
  "c options = None \<or> c options = Some [] \<Longrightarrow> commandArgs \<noteq> [] \<Longrightarrow>
     commandString options commandArgs = Some (join '' '' commandArgs)"
  by (auto simp: commandString_def)

lemma commandString_none:
  "c options = None \<or> c options = Some [] \<Longrightarrow> commandArgs = [] \<Longrightarrow>
     commandString options commandArgs = None"
  by (auto simp: commandString_def)

lemma commandString_same:
  "c options' = c options \<Longrightarrow>
     commandString options' commandArgs = commandString options commandArgs"
  by (simp add: commandString_def)

lemma wrapped_only:
  assumes "commandString options commandArgs = Some command"
  shows "\<forall>x \<in> set (wrapped (fst (action X commandArgs options w))). x = command"
  using wrapped_cases [of X commandArgs options w] assms by auto

lemmas cli_eval =
  action_def commandString_def runtimeConfig_def configPath_def getDefaultConfigPath_def
  getDefaultConfig_def stringOptions_def watchConfigFile_throws_def reachesWrap_def
  Let_def loader_eval

text \<open>
  C8, as the claim states it, fails: \<^verbatim>\<open>-c\<close> given with the empty string and the
  arguments \<^verbatim>\<open>echo hi\<close> hands \<^verbatim>\<open>echo hi\<close> to \<^verbatim>\<open>wrapWithSandbox\<close>, not the
  \<^verbatim>\<open>-c\<close> argument.
\<close>

theorem cli_empty_c_counterexample:
  "c emptyCOptions = Some [] \<and>
   wrapped (fst (action testExternals [''echo'', ''hi''] emptyCOptions (hostWith None)))
     = [''echo hi''] \<and>
   wrapped (fst (action testExternals [''echo'', ''hi''] emptyCOptions (hostWith None)))
     \<noteq> ['''']"
  by (simp add: cli_eval emptyCOptions_def)

text \<open>
  C8, amended: the command assembly is deterministic, and the unescaped mode is a
  separate explicit opt-in. When \<^verbatim>\<open>-c\<close> is given with an argument that is not
  empty, the string passed to \<^verbatim>\<open>wrapWithSandbox\<close> is exactly that argument;
  otherwise (no \<^verbatim>\<open>-c\<close>, or an empty one), for every non-empty argument list, it
  is exactly the arguments joined by single spaces; with no non-empty \<^verbatim>\<open>-c\<close> and
  no arguments the process exits with status 1 and nothing is wrapped or spawned.

  In the theorem: every string in the trace's calls of \<^verbatim>\<open>wrapWithSandbox\<close> is the
  one stated, there is at most one such call, and there is exactly one when no
  earlier call of the handler has thrown; when one has, nothing is wrapped or
  spawned and the process exits with status 1. Two runs with the same \<^verbatim>\<open>-c\<close>
  option and the same arguments pass the same string, whatever the host, the
  other options and the parameters are.
\<close>

theorem cli_command_assembly:
  "(\<forall>s. c options = Some s \<and> s \<noteq> [] \<longrightarrow>
      (\<forall>x \<in> set (wrapped (fst (action X commandArgs options w))). x = s) \<and>
      (reachesWrap X options w \<longrightarrow> wrapped (fst (action X commandArgs options w)) = [s])) \<and>
   ((c options = None \<or> c options = Some []) \<and> commandArgs \<noteq> [] \<longrightarrow>
      (\<forall>x \<in> set (wrapped (fst (action X commandArgs options w))). x = join '' '' commandArgs) \<and>
      (reachesWrap X options w \<longrightarrow>
         wrapped (fst (action X commandArgs options w)) = [join '' '' commandArgs])) \<and>
   ((c options = None \<or> c options = Some []) \<and> commandArgs = [] \<longrightarrow>
      wrapped (fst (action X commandArgs options w)) = [] \<and>
      spawned (fst (action X commandArgs options w)) = [] \<and>
      last (fst (action X commandArgs options w)) = ProcessExit 1) \<and>
   length (wrapped (fst (action X commandArgs options w))) \<le> 1 \<and>
   (c options' = c options \<longrightarrow>
      (\<forall>x \<in> set (wrapped (fst (action X' commandArgs options' w'))).
       \<forall>y \<in> set (wrapped (fst (action X commandArgs options w))). x = y)) \<and>
   (\<not> reachesWrap X options w \<longrightarrow>
      wrapped (fst (action X commandArgs options w)) = [] \<and>
      spawned (fst (action X commandArgs options w)) = [] \<and>
      last (fst (action X commandArgs options w)) = ProcessExit 1)"
proof (intro conjI allI impI)
  fix s
  assume a: "c options = Some s \<and> s \<noteq> []"
  then have cs: "commandString options commandArgs = Some s"
    by (simp add: commandString_c)
  from wrapped_only [OF cs]
  show "\<forall>x \<in> set (wrapped (fst (action X commandArgs options w))). x = s" .
  assume "reachesWrap X options w"
  from wrapped_reaches [OF this, of commandArgs] cs
  show "wrapped (fst (action X commandArgs options w)) = [s]"
    by simp
next
  assume a: "(c options = None \<or> c options = Some []) \<and> commandArgs \<noteq> []"
  then have cs: "commandString options commandArgs = Some (join '' '' commandArgs)"
    by (simp add: commandString_args)
  from wrapped_only [OF cs]
  show "\<forall>x \<in> set (wrapped (fst (action X commandArgs options w))). x = join '' '' commandArgs" .
  assume "reachesWrap X options w"
  from wrapped_reaches [OF this, of commandArgs] cs
  show "wrapped (fst (action X commandArgs options w)) = [join '' '' commandArgs]"
    by simp
next
  assume a: "(c options = None \<or> c options = Some []) \<and> commandArgs = []"
  then have n: "commandString options commandArgs = None"
    by (simp add: commandString_none)
  from no_command_exits [OF n, of X w]
  show "wrapped (fst (action X commandArgs options w)) = []"
    and "spawned (fst (action X commandArgs options w)) = []"
    and "last (fst (action X commandArgs options w)) = ProcessExit 1"
    by simp_all
next
  from wrapped_cases [of X commandArgs options w]
  show "length (wrapped (fst (action X commandArgs options w))) \<le> 1"
    by auto
next
  assume same: "c options' = c options"
  show "\<forall>x \<in> set (wrapped (fst (action X' commandArgs options' w'))).
       \<forall>y \<in> set (wrapped (fst (action X commandArgs options w))). x = y"
    using wrapped_cases [of X' commandArgs options' w'] wrapped_cases [of X commandArgs options w]
      commandString_same [OF same, of commandArgs]
    by auto
next
  assume "\<not> reachesWrap X options w"
  from not_reached [OF this, of commandArgs]
  show "wrapped (fst (action X commandArgs options w)) = []"
    and "spawned (fst (action X commandArgs options w)) = []"
    and "last (fst (action X commandArgs options w)) = ProcessExit 1"
    by simp_all
qed

theorem cli_command_assembly_witness:
  "reachesWrap testExternals stringOptions (hostWith None) \<and>
   wrapped (fst (action testExternals [''echo'', ''hi''] stringOptions (hostWith None)))
     = [''ls | wc -l''] \<and>
   reachesWrap testExternals plainOptions (hostWith None) \<and>
   wrapped (fst (action testExternals [''echo'', ''hi''] plainOptions (hostWith None)))
     = [''echo hi''] \<and>
   reachesWrap testExternals emptyCOptions (hostWith None) \<and>
   wrapped (fst (action testExternals [''echo'', ''hi''] emptyCOptions (hostWith None)))
     = [''echo hi''] \<and>
   wrapped (fst (action testExternals [] plainOptions (hostWith None))) = [] \<and>
   spawned (fst (action testExternals [] plainOptions (hostWith None))) = [] \<and>
   last (fst (action testExternals [] plainOptions (hostWith None))) = ProcessExit 1 \<and>
   spawned (fst (action testExternals [] emptyCOptions (hostWith None))) = [] \<and>
   \<not> reachesWrap testExternals stringOptions unreadableHost \<and>
   wrapped (fst (action testExternals [''echo'', ''hi''] stringOptions unreadableHost)) = [] \<and>
   last (fst (action testExternals [''echo'', ''hi''] stringOptions unreadableHost))
     = ProcessExit 1"
proof -
  let ?X = testExternals
  let ?w = "hostWith None"
  let ?args = "[''echo'', ''hi'']"
  note at = cli_command_assembly
    [where X = ?X and X' = ?X and w' = ?w and commandArgs = ?args]
  note none = cli_command_assembly
    [where X = ?X and X' = ?X and w = ?w and w' = ?w and commandArgs = "[]"]
  have j: "join '' '' ?args = ''echo hi''"
    by simp
  have c1: "c stringOptions = Some ''ls | wc -l'' \<and> ''ls | wc -l'' \<noteq> []"
    by (simp add: stringOptions_def)
  have c2: "c plainOptions = None \<or> c plainOptions = Some []"
    by (simp add: plainOptions_def)
  have c3: "c emptyCOptions = None \<or> c emptyCOptions = Some []"
    by (simp add: emptyCOptions_def)
  have g1: "reachesWrap ?X stringOptions ?w"
    by (simp add: cli_eval)
  have g2: "reachesWrap ?X plainOptions ?w"
    by (simp add: cli_eval plainOptions_def)
  have g3: "reachesWrap ?X emptyCOptions ?w"
    by (simp add: cli_eval emptyCOptions_def)
  have g4: "\<not> reachesWrap ?X stringOptions unreadableHost"
    by (simp add: cli_eval unreadableHost_def)
  from at [where options = stringOptions and options' = stringOptions and w = ?w,
      THEN conjunct1, THEN spec, of "''ls | wc -l''"] c1 g1
  have r1: "wrapped (fst (action ?X ?args stringOptions ?w)) = [''ls | wc -l'']"
    by blast
  from at [where options = plainOptions and options' = plainOptions and w = ?w,
      THEN conjunct2, THEN conjunct1] c2 g2
  have "wrapped (fst (action ?X ?args plainOptions ?w)) = [join '' '' ?args]"
    by blast
  then have r2: "wrapped (fst (action ?X ?args plainOptions ?w)) = [''echo hi'']"
    by (simp only: j)
  from at [where options = emptyCOptions and options' = emptyCOptions and w = ?w,
      THEN conjunct2, THEN conjunct1] c3 g3
  have "wrapped (fst (action ?X ?args emptyCOptions ?w)) = [join '' '' ?args]"
    by blast
  then have r3: "wrapped (fst (action ?X ?args emptyCOptions ?w)) = [''echo hi'']"
    by (simp only: j)
  from none [where options = plainOptions and options' = plainOptions,
      THEN conjunct2, THEN conjunct2, THEN conjunct1] c2
  have r4: "wrapped (fst (action ?X [] plainOptions ?w)) = [] \<and>
      spawned (fst (action ?X [] plainOptions ?w)) = [] \<and>
      last (fst (action ?X [] plainOptions ?w)) = ProcessExit 1"
    by blast
  from none [where options = emptyCOptions and options' = emptyCOptions,
      THEN conjunct2, THEN conjunct2, THEN conjunct1] c3
  have r5: "spawned (fst (action ?X [] emptyCOptions ?w)) = []"
    by blast
  from at [where options = stringOptions and options' = stringOptions and w = unreadableHost,
      THEN conjunct2, THEN conjunct2, THEN conjunct2, THEN conjunct2, THEN conjunct2] g4
  have r6: "wrapped (fst (action ?X ?args stringOptions unreadableHost)) = [] \<and>
      last (fst (action ?X ?args stringOptions unreadableHost)) = ProcessExit 1"
    by blast
  note r4a = r4 [THEN conjunct1] and r4b = r4 [THEN conjunct2, THEN conjunct1]
    and r4c = r4 [THEN conjunct2, THEN conjunct2]
    and r6a = r6 [THEN conjunct1] and r6b = r6 [THEN conjunct2]
  show ?thesis
    by (intro conjI) (rule g1 r1 g2 r2 g3 r3 r4a r4b r4c r5 g4 r6a r6b)+
qed

text \<open>
  C10: when \<^verbatim>\<open>loadConfig\<close> returns \<^verbatim>\<open>null\<close> for the configuration path, the first
  thing the handler does is to call \<^verbatim>\<open>initialize\<close> with the default policy, and it
  calls it once. In that policy the two domain lists and the three path lists are
  empty; by the filtering rule it allows every hostname, and its mount plan is the
  read-only baseline alone, which hides no path and makes none writable.
\<close>

theorem cli_default_policy:
  "(fst (loadConfig X (configPath X options) w) = None \<longrightarrow>
      hd (fst (action X commandArgs options w)) = Initialize getDefaultConfig \<and>
      initialized (fst (action X commandArgs options w)) = [getDefaultConfig]) \<and>
   allowedDomains (network getDefaultConfig) = [] \<and>
   deniedDomains (network getDefaultConfig) = [] \<and>
   denyRead (filesystem getDefaultConfig) = [] \<and>
   allowWrite (filesystem getDefaultConfig) = [] \<and>
   denyWrite (filesystem getDefaultConfig) = [] \<and>
   filterDecision matches (network getDefaultConfig) h = Allow \<and>
   compile resolve exists (filesystem getDefaultConfig) = Inr ([Baseline], []) \<and>
   effective [Baseline] q = Some ReadOnly"
proof -
  have "fst (loadConfig X (configPath X options) w) = None \<longrightarrow>
      runtimeConfig X options w = getDefaultConfig"
    by (simp add: runtimeConfig_def)
  moreover have "effective [Baseline] q = Some ReadOnly"
    by (simp add: effective_def appliesTo_def)
  ultimately show ?thesis
    by (simp add: action_initialized action_first getDefaultConfig_def filterDecision_def
        matchesAny_def compile_def)
qed

theorem cli_default_policy_witness:
  \<open>fst (loadConfig testExternals (configPath testExternals stringOptions) (hostWith None)) = None \<and>
   initialized (fst (action testExternals [] stringOptions (hostWith None)))
     = [getDefaultConfig] \<and>
   fst (loadConfig testExternals (configPath testExternals stringOptions)
          (hostWith (Some (File (utf16 ''{"network":{}}''))))) = None \<and>
   initialized (fst (action testExternals [] stringOptions
          (hostWith (Some (File (utf16 ''{"network":{}}''))))))
     = [getDefaultConfig] \<and>
   filterDecision (=) (network getDefaultConfig) ''example.com'' = Allow \<and>
   compile Some (\<lambda>p. True) (filesystem getDefaultConfig) = Inr ([Baseline], []) \<and>
   effective [Baseline] ''/etc/passwd'' = Some ReadOnly\<close>
proof -
  let ?X = testExternals
  let ?partial = \<open>hostWith (Some (File (utf16 ''{"network":{}}'')))\<close>
  have n1: "fst (loadConfig ?X (configPath ?X stringOptions) (hostWith None)) = None"
    by (simp add: cli_eval)
  have n2: "fst (loadConfig ?X (configPath ?X stringOptions) ?partial) = None"
    by (simp add: cli_eval)
  note t1 = cli_default_policy
    [of ?X stringOptions "hostWith None" "[]" "(=)" "''example.com''" Some "\<lambda>p. True"
      "''/etc/passwd''"]
  note t2 = cli_default_policy
    [of ?X stringOptions ?partial "[]" "(=)" "''example.com''" Some "\<lambda>p. True"
      "''/etc/passwd''"]
  from t1 n1 have r1: "initialized (fst (action ?X [] stringOptions (hostWith None)))
      = [getDefaultConfig]"
    by blast
  from t2 n2 have r2: "initialized (fst (action ?X [] stringOptions ?partial))
      = [getDefaultConfig]"
    by blast
  from t1 have r3: "filterDecision (=) (network getDefaultConfig) ''example.com'' = Allow"
    and r4: "compile Some (\<lambda>p. True) (filesystem getDefaultConfig) = Inr ([Baseline], [])"
    and r5: "effective [Baseline] ''/etc/passwd'' = Some ReadOnly"
    by blast+
  from n1 r1 n2 r2 r3 r4 r5 show ?thesis
    by blast
qed

subsection \<open>The network filtering rule\<close>

text \<open>
  C1: for every policy and hostname, a hostname that \<open>deniedDomains\<close> matches is
  refused; one that it does not match is, when \<open>allowedDomains\<close> is not empty,
  allowed exactly if \<open>allowedDomains\<close> matches it, and, when \<open>allowedDomains\<close> is
  empty, allowed. A domain that is in both lists, and that matches itself, is
  refused.
\<close>

theorem filterDecision_rule:
  "(matchesAny matches (deniedDomains net) h \<longrightarrow> filterDecision matches net h = Refuse) \<and>
   (\<not> matchesAny matches (deniedDomains net) h \<and> allowedDomains net \<noteq> [] \<longrightarrow>
      (filterDecision matches net h = Allow \<longleftrightarrow> matchesAny matches (allowedDomains net) h)) \<and>
   (\<not> matchesAny matches (deniedDomains net) h \<and> allowedDomains net = [] \<longrightarrow>
      filterDecision matches net h = Allow) \<and>
   (d \<in> set (allowedDomains net) \<and> d \<in> set (deniedDomains net) \<and> matches d d \<longrightarrow>
      filterDecision matches net d = Refuse)"
  by (auto simp: filterDecision_def matchesAny_def list_ex_iff)

theorem filterDecision_rule_witness:
  "filterDecision (=) \<lparr>allowedDomains = [], deniedDomains = [''evil.example'']\<rparr> ''evil.example''
     = Refuse \<and>
   filterDecision (=) \<lparr>allowedDomains = [], deniedDomains = [''evil.example'']\<rparr> ''other.example''
     = Allow \<and>
   filterDecision (=) \<lparr>allowedDomains = [''good.example''], deniedDomains = []\<rparr> ''other.example''
     = Refuse \<and>
   filterDecision (=) \<lparr>allowedDomains = [''good.example''], deniedDomains = []\<rparr> ''good.example''
     = Allow \<and>
   filterDecision (=)
     \<lparr>allowedDomains = [''good.example'', ''dual.example''], deniedDomains = [''dual.example'']\<rparr>
     ''dual.example'' = Refuse"
proof -
  let ?deny = "\<lparr>allowedDomains = [], deniedDomains = [''evil.example'']\<rparr>"
  let ?allow = "\<lparr>allowedDomains = [''good.example''], deniedDomains = []\<rparr>"
  let ?both =
    "\<lparr>allowedDomains = [''good.example'', ''dual.example''], deniedDomains = [''dual.example'']\<rparr>"
  have r1: "filterDecision (=) ?deny ''evil.example'' = Refuse"
    using filterDecision_rule [of "(=)" ?deny "''evil.example''"]
    by (simp add: matchesAny_def)
  have r2: "filterDecision (=) ?deny ''other.example'' = Allow"
    using filterDecision_rule [of "(=)" ?deny "''other.example''"]
    by (simp add: matchesAny_def)
  have r3: "filterDecision (=) ?allow ''other.example'' \<noteq> Allow"
    using filterDecision_rule [of "(=)" ?allow "''other.example''"]
    by (simp add: matchesAny_def)
  have r4: "filterDecision (=) ?allow ''good.example'' = Allow"
    using filterDecision_rule [of "(=)" ?allow "''good.example''"]
    by (simp add: matchesAny_def)
  have r5: "filterDecision (=) ?both ''dual.example'' = Refuse"
    using filterDecision_rule [of "(=)" ?both _ "''dual.example''"]
    by simp
  from r3 have r3': "filterDecision (=) ?allow ''other.example'' = Refuse"
    by (cases "filterDecision (=) ?allow ''other.example''") simp_all
  from r1 r2 r3' r4 r5 show ?thesis
    by blast
qed

subsection \<open>The filesystem policy compiler\<close>

lemma compilePatterns_Inr:
  "compilePatterns resolve exists mk ps = Inr (ds, ws) \<Longrightarrow>
     (\<forall>p \<in> set ps. \<exists>q. resolve p = Some q \<and> mk q \<in> set ds) \<and>
     (\<forall>d \<in> set ds. \<exists>q. d = mk q)"
proof (induction ps arbitrary: ds ws)
  case Nil
  then show ?case by simp
next
  case (Cons p ps)
  from Cons.prems obtain q ds' ws' where q: "resolve p = Some q"
    and rest: "compilePatterns resolve exists mk ps = Inr (ds', ws')"
    and ds: "ds = mk q # ds'"
    by (auto split: option.splits sum.splits)
  from Cons.IH [OF rest] q ds show ?case
    by auto
qed

lemma compile_Inr:
  assumes "compile resolve exists fs = Inr (ds, ws)"
  shows "\<exists>d1 d2 d3. ds = Baseline # d1 @ d2 @ d3 \<and>
     (\<forall>d \<in> set d3. \<exists>q. d = BindReadOnly q) \<and>
     (\<forall>p \<in> set (denyWrite fs). \<exists>q. resolve p = Some q \<and> BindReadOnly q \<in> set d3)"
proof -
  from assms obtain d1 w1 d2 w2 d3 w3 where
    c3: "compilePatterns resolve exists BindReadOnly (denyWrite fs) = Inr (d3, w3)" and
    ds: "ds = Baseline # d1 @ d2 @ d3"
    by (auto simp: compile_def split: sum.splits)
  from compilePatterns_Inr [OF c3] ds
  show ?thesis by blast
qed

lemma appliesTo_length:
  assumes "appliesTo d q"
  shows "length (target d) \<le> length q"
proof -
  from assms have "length (take (length (target d)) q) = length (target d)"
    by (simp add: appliesTo_def)
  then show ?thesis by simp
qed

lemma within_decide: "within q st \<Longrightarrow> within q (decide q st d)"
  by (cases st) (auto simp: within_def dest: appliesTo_length)

lemma within_foldl: "within q st \<Longrightarrow> within q (foldl (decide q) st ds)"
  by (induction ds arbitrary: st) (simp_all add: within_decide)

lemma appliesTo_self: "appliesTo (BindReadOnly p) (components p)"
  by (simp add: appliesTo_def)

lemma decide_self:
  "within (components p) st \<Longrightarrow>
     decide (components p) st (BindReadOnly p) = Some (length (components p), ReadOnly)"
  by (cases st) (auto simp: within_def appliesTo_self)

lemma decide_readonly_kept:
  "decide q (Some (length q, ReadOnly)) (BindReadOnly p) = Some (length q, ReadOnly)"
  using appliesTo_length [of "BindReadOnly p" q] by auto

lemma foldl_readonly_kept:
  "\<forall>d \<in> set ds. \<exists>p. d = BindReadOnly p \<Longrightarrow>
     foldl (decide q) (Some (length q, ReadOnly)) ds = Some (length q, ReadOnly)"
proof (induction ds)
  case Nil
  then show ?case by simp
next
  case (Cons d ds)
  then obtain p where "d = BindReadOnly p" by auto
  with Cons show ?case
    by (simp add: decide_readonly_kept del: decide.simps)
qed

lemma foldl_readonly_reached:
  "\<forall>d \<in> set ds. \<exists>p. d = BindReadOnly p \<Longrightarrow> BindReadOnly p \<in> set ds \<Longrightarrow>
     within (components p) st \<Longrightarrow>
     foldl (decide (components p)) st ds = Some (length (components p), ReadOnly)"
proof (induction ds arbitrary: st)
  case Nil
  then show ?case by simp
next
  case (Cons d ds)
  show ?case
  proof (cases "d = BindReadOnly p")
    case True
    with Cons.prems show ?thesis
      by (simp add: decide_self foldl_readonly_kept)
  next
    case False
    with Cons.prems have "BindReadOnly p \<in> set ds" by simp
    moreover from Cons.prems have "\<forall>d \<in> set ds. \<exists>p. d = BindReadOnly p" by simp
    moreover from Cons.prems have "within (components p) (decide (components p) st d)"
      by (simp add: within_decide)
    ultimately show ?thesis
      using Cons.IH by simp
  qed
qed

lemma effective_denyWrite:
  assumes "\<forall>d \<in> set d3. \<exists>p. d = BindReadOnly p" and "BindReadOnly q \<in> set d3"
  shows "effective (pre @ d3) q = Some ReadOnly"
proof -
  have "within (components q) (foldl (decide (components q)) None pre)"
    by (rule within_foldl) (simp add: within_def)
  from foldl_readonly_reached [OF assms this] show ?thesis
    by (simp add: effective_def)
qed

text \<open>
  C4: the policy \<open>denyRead = [/secret]\<close>, \<open>allowWrite = [/work]\<close>,
  \<open>denyWrite = [/work/readonly]\<close> compiles to the baseline, a mask of \<open>/secret\<close>, a
  read-write bind of \<open>/work\<close> and a read-only bind of \<open>/work/readonly\<close>; under that
  plan \<open>/secret\<close> and what is below it are hidden, \<open>/work\<close> is writable, and
  \<open>/work/readonly\<close> and what is below it are read-only. For every policy that
  compiles, every \<open>denyWrite\<close> pattern has a read-only bind of its resolved path in
  the plan, and the plan grants that path read-only access, whatever
  \<open>allowWrite\<close> holds.
\<close>

theorem compile_denyWrite_readonly:
  "(compile resolve exists fs = Inr (ds, ws) \<and> p \<in> set (denyWrite fs) \<longrightarrow>
      (\<exists>q. resolve p = Some q \<and> BindReadOnly q \<in> set ds \<and> effective ds q = Some ReadOnly)) \<and>
   compile Some (\<lambda>p. True) examplePolicy = Inr (examplePlan, []) \<and>
   map (effective examplePlan)
      [''/secret'', ''/secret/key'', ''/work'', ''/work/file'', ''/work/readonly'',
       ''/work/readonly/file'', ''/etc'']
     = [Some Hidden, Some Hidden, Some ReadWrite, Some ReadWrite, Some ReadOnly,
        Some ReadOnly, Some ReadOnly]"
proof (intro conjI impI)
  assume a: "compile resolve exists fs = Inr (ds, ws) \<and> p \<in> set (denyWrite fs)"
  from compile_Inr [of resolve exists fs ds ws] a obtain d1 d2 d3 where
    ds: "ds = (Baseline # d1 @ d2) @ d3" and
    ro: "\<forall>d \<in> set d3. \<exists>q. d = BindReadOnly q" and
    dw: "\<forall>p \<in> set (denyWrite fs). \<exists>q. resolve p = Some q \<and> BindReadOnly q \<in> set d3"
    by auto
  from dw a obtain q where q: "resolve p = Some q" "BindReadOnly q \<in> set d3"
    by blast
  from effective_denyWrite [OF ro q(2), of "Baseline # d1 @ d2"] q ds
  show "\<exists>q. resolve p = Some q \<and> BindReadOnly q \<in> set ds \<and> effective ds q = Some ReadOnly"
    by auto
next
  show "compile Some (\<lambda>p. True) examplePolicy = Inr (examplePlan, [])"
    by (simp add: compile_def examplePolicy_def examplePlan_def)
next
  show "map (effective examplePlan)
      [''/secret'', ''/secret/key'', ''/work'', ''/work/file'', ''/work/readonly'',
       ''/work/readonly/file'', ''/etc'']
     = [Some Hidden, Some Hidden, Some ReadWrite, Some ReadWrite, Some ReadOnly,
        Some ReadOnly, Some ReadOnly]"
    by (simp add: effective_def components_def appliesTo_def examplePlan_def)
qed

theorem compile_denyWrite_readonly_witness:
  "compile Some (\<lambda>p. True) examplePolicy = Inr (examplePlan, []) \<and>
   ''/work/readonly'' \<in> set (denyWrite examplePolicy) \<and>
   BindReadOnly ''/work/readonly'' \<in> set examplePlan \<and>
   effective examplePlan ''/work/readonly'' = Some ReadOnly \<and>
   effective examplePlan ''/work'' = Some ReadWrite"
proof -
  note t = compile_denyWrite_readonly
    [of Some "\<lambda>p. True" examplePolicy examplePlan "[]" "''/work/readonly''"]
  from t have c: "compile Some (\<lambda>p. True) examplePolicy = Inr (examplePlan, [])"
    by blast
  have m: "''/work/readonly'' \<in> set (denyWrite examplePolicy)"
    by (simp add: examplePolicy_def)
  from t c m have r: "BindReadOnly ''/work/readonly'' \<in> set examplePlan \<and>
      effective examplePlan ''/work/readonly'' = Some ReadOnly"
    by auto
  from t have w: "effective examplePlan ''/work'' = Some ReadWrite"
    by simp
  from c m r w show ?thesis
    by blast
qed

end
